theory Spec2Isabelle
  imports Main "HOL-Library.Word"
begin

section \<open>Layered configuration resolution for the standalone-cluster plugin\<close>

text \<open>
  A shallow embedding of \<^verbatim>\<open>cli/cmd/plugin/standalone-cluster/config/config.go\<close>.
  Go strings are byte sequences and are modelled as \<^typ>\<open>string\<close> (a list of 8-bit
  characters).  Go maps are partial functions; a \<^verbatim>\<open>nil\<close> map and an empty map are
  both \<^term>\<open>Map.empty\<close>, a \<^verbatim>\<open>nil\<close> slice and an empty slice are both \<^term>\<open>[]\<close>.
  Everything the program reads from its surroundings (process environment, file system,
  current user, the YAML library) is an explicit argument of the model.
\<close>

subsection \<open>Package constants\<close>

text \<open>
  The Go constants \<^verbatim>\<open>ClusterName\<close>, \<^verbatim>\<open>Tty\<close>, \<^verbatim>\<open>Provider\<close> and \<^verbatim>\<open>Cni\<close> share their names
  with fields of \<^verbatim>\<open>LocalClusterConfig\<close>; the constants carry the suffix \<open>_key\<close> here.
\<close>

definition ClusterConfigFile :: string where "ClusterConfigFile = ''ClusterConfigFile''"
definition ClusterName_key :: string where "ClusterName_key = ''ClusterName''"
definition Tty_key :: string where "Tty_key = ''Tty''"
definition TKRLocation :: string where "TKRLocation = ''TkrLocation''"
definition Provider_key :: string where "Provider_key = ''Provider''"
definition Cni_key :: string where "Cni_key = ''Cni''"
definition PodCIDR :: string where "PodCIDR = ''PodCidr''"
definition ServiceCIDR :: string where "ServiceCIDR = ''ServiceCidr''"

definition defaultConfigValues :: "string \<rightharpoonup> string" where
  "defaultConfigValues = map_of
     [(TKRLocation, ''projects.registry.vmware.com/tce/tkr:v1.21.5''),
      (Provider_key, ''kind''),
      (Cni_key, ''antrea''),
      (PodCIDR, ''10.244.0.0/16''),
      (ServiceCIDR, ''10.96.0.0/16''),
      (Tty_key, ''true'')]"

subsection \<open>Library functions on strings\<close>

text \<open>
  \<^verbatim>\<open>strings.Join(elems, sep)\<close>, \<^verbatim>\<open>strings.HasPrefix\<close> and \<^verbatim>\<open>strings.ToUpper\<close> of the Go
  standard library.  \<^verbatim>\<open>ToUpper\<close> is modelled on ASCII letters; bytes outside \<open>a..z\<close>
  are left alone (the program only passes it words of the ASCII field keys).
\<close>

fun strings_Join :: "string list \<Rightarrow> string \<Rightarrow> string" where
  "strings_Join [] sep = []"
| "strings_Join [e] sep = e"
| "strings_Join (e # es) sep = e @ sep @ strings_Join es sep"

definition strings_HasPrefix :: "string \<Rightarrow> string \<Rightarrow> bool" where
  "strings_HasPrefix s pre = (take (length pre) s = pre)"

definition ascii_lower :: string where "ascii_lower = ''abcdefghijklmnopqrstuvwxyz''"
definition ascii_upper :: string where "ascii_upper = ''ABCDEFGHIJKLMNOPQRSTUVWXYZ''"

definition upper_char :: "char \<Rightarrow> char" where
  "upper_char c = (case map_of (zip ascii_lower ascii_upper) c of Some u \<Rightarrow> u | None \<Rightarrow> c)"

definition strings_ToUpper :: "string \<Rightarrow> string" where
  "strings_ToUpper s = map upper_char s"

text \<open>The character class \<^verbatim>\<open>[A-Z]\<close> of the regular expression in \<^verbatim>\<open>fieldNameToEnvName\<close>.\<close>

definition is_AZ :: "char \<Rightarrow> bool" where
  "is_AZ c = (c \<in> set ascii_upper)"

text \<open>
  \<^verbatim>\<open>regexp.MustCompile(`[A-Z][^A-Z]*`).FindAllString(field, -1)\<close>: the successive
  leftmost matches.  A match starts at the next byte in \<^verbatim>\<open>A..Z\<close> and, the star being
  greedy, runs over every following byte outside \<^verbatim>\<open>A..Z\<close>; bytes before the first
  capital belong to no match.
\<close>

function FindAllString :: "string \<Rightarrow> string list" where
  "FindAllString s =
     (case dropWhile (\<lambda>c. \<not> is_AZ c) s of
        [] \<Rightarrow> []
      | c # t \<Rightarrow> (c # takeWhile (\<lambda>c. \<not> is_AZ c) t) # FindAllString (dropWhile (\<lambda>c. \<not> is_AZ c) t))"
  by pat_completeness auto
termination
proof (relation "measure length")
  show "wf (measure length)" by simp
next
  fix s :: string and c t
  assume d: "dropWhile (\<lambda>c. \<not> is_AZ c) s = c # t"
  have "length (dropWhile (\<lambda>c. \<not> is_AZ c) t) \<le> length t"
    by (rule length_dropWhile_le)
  moreover have "length (c # t) \<le> length s"
    using length_dropWhile_le [of "\<lambda>c. \<not> is_AZ c" s] d by simp
  ultimately show "(dropWhile (\<lambda>c. \<not> is_AZ c) t, s) \<in> measure length"
    by simp
qed

declare FindAllString.simps [simp del]

subsection \<open>Environment-variable names\<close>

text \<open>
  \<^verbatim>\<open>fieldNameToEnvName\<close>: the array starts as \<^verbatim>\<open>["TANZU"]\<close>, every matched word is
  appended in upper case, and the array is joined with \<^verbatim>\<open>"_"\<close>.
\<close>

definition fieldNameToEnvName :: "string \<Rightarrow> string" where
  "fieldNameToEnvName field =
     strings_Join ([''TANZU''] @ map strings_ToUpper (FindAllString field)) ''_''"

subsection \<open>Data model\<close>

text \<open>
  The values an \<^verbatim>\<open>interface{}\<close> holds after YAML decoding: the two configuration bags
  are \<^verbatim>\<open>map[string]interface{}\<close>.  The program never inspects them.
\<close>

datatype yaml_value =
    YNull
  | YBool bool
  | YInt int
  | YStr string
  | YSeq "yaml_value list"
  | YMap "(string \<times> yaml_value) list"

record PortMap =
  HostPort :: "64 word"
  ContainerPort :: "64 word"

record LocalClusterConfig =
  ClusterName :: string
  KubeconfigPath :: string
  NodeImage :: string
  Provider :: string
  ProviderConfiguration :: "string \<rightharpoonup> yaml_value"
  Cni :: string
  CNIConfiguration :: "string \<rightharpoonup> yaml_value"
  PodCidr :: string
  ServiceCidr :: string
  TkrLocation :: string
  PortsToForward :: "PortMap list"
  Tty :: string

text \<open>The zero value \<^verbatim>\<open>&LocalClusterConfig{}\<close>.\<close>

definition zero_LocalClusterConfig :: LocalClusterConfig where
  "zero_LocalClusterConfig =
     \<lparr>ClusterName = [], KubeconfigPath = [], NodeImage = [], Provider = [],
      ProviderConfiguration = Map.empty, Cni = [], CNIConfiguration = Map.empty,
      PodCidr = [], ServiceCidr = [], TkrLocation = [], PortsToForward = [], Tty = []\<rparr>"

subsection \<open>Errors and panics\<close>

datatype os_error = ENOENT | ENOTDIR | EISDIR | EACCES

text \<open>
  Every way a function of the package ends without its normal result.  The
  \<^verbatim>\<open>fmt.Errorf\<close> values are kept apart by constructor, with the data their message
  is formatted from:
  \<^item> \<open>PathError\<close>: the error of \<^verbatim>\<open>os.ReadFile\<close>, returned as it is;
  \<^item> \<open>YAMLError\<close>: the error of \<^verbatim>\<open>yaml.Unmarshal\<close>, returned as it is;
  \<^item> \<open>ClusterNameMissing\<close>: \<^verbatim>\<open>cluster name must be provided\<close>;
  \<^item> \<open>CreateFailed p\<close>: \<^verbatim>\<open>failed to create config file at %q, does it already exist\<close>;
  \<^item> \<open>RenderFailed\<close>: \<^verbatim>\<open>failed to render configuration file. Error: %s\<close>;
  \<^item> \<open>WriteFailed\<close>: \<^verbatim>\<open>failed to write rawConfig file. Error: %s\<close>;
  \<^item> \<open>ReadFailed\<close>: \<^verbatim>\<open>failed reading config file. Error: %s\<close>;
  \<^item> \<open>InvalidConfiguration p\<close>: \<^verbatim>\<open>configuration at %s was invalid. Error: %s\<close>;
  \<^item> \<open>NilPointerPanic\<close>: the run-time panic of a field read through a \<^verbatim>\<open>nil\<close> pointer;
  \<^item> \<open>ReflectPanic\<close>: the panic of \<^verbatim>\<open>reflect.Value.SetString\<close> on a value that is not
    a settable string.
\<close>

datatype error =
    PathError os_error
  | YAMLError string
  | ClusterNameMissing
  | CreateFailed string
  | RenderFailed string
  | WriteFailed os_error
  | ReadFailed os_error
  | InvalidConfiguration string string
  | NilPointerPanic
  | ReflectPanic

subsection \<open>The process's surroundings\<close>

text \<open>
  The file system is flat: for each path, what is there.  What a path's parent
  directories allow is not derived from the other paths; \<open>create_error\<close> gives, for a
  path where nothing exists, the error the system answers when asked to create a file
  there (a missing or read-only parent directory), if any.  Reading or listing a path
  where nothing exists answers not-found; the answers not-a-directory (a path below a
  regular file) and permission-denied (a path in an unreadable directory) are outside
  this model.
\<close>

datatype node = File string | Dir

record filesystem =
  nodes :: "string \<rightharpoonup> node"
  create_error :: "string \<rightharpoonup> os_error"

text \<open>\<^verbatim>\<open>os.ReadDir\<close>; the program discards the entries and keeps the error.\<close>

definition os_ReadDir :: "filesystem \<Rightarrow> string \<Rightarrow> os_error option" where
  "os_ReadDir fs name =
     (case nodes fs name of
        None \<Rightarrow> Some ENOENT
      | Some (File d) \<Rightarrow> Some ENOTDIR
      | Some Dir \<Rightarrow> None)"

definition os_IsNotExist :: "os_error option \<Rightarrow> bool" where
  "os_IsNotExist err = (err = Some ENOENT)"

definition os_ReadFile :: "filesystem \<Rightarrow> string \<Rightarrow> os_error + string" where
  "os_ReadFile fs name =
     (case nodes fs name of
        None \<Rightarrow> Inl ENOENT
      | Some Dir \<Rightarrow> Inl EISDIR
      | Some (File d) \<Rightarrow> Inr d)"

text \<open>\<^verbatim>\<open>os.WriteFile(name, data, 0644)\<close>: creates the file or truncates an existing one.\<close>

definition os_WriteFile :: "filesystem \<Rightarrow> string \<Rightarrow> string \<Rightarrow> os_error option \<times> filesystem" where
  "os_WriteFile fs name data =
     (case nodes fs name of
        Some Dir \<Rightarrow> (Some EISDIR, fs)
      | Some (File d) \<Rightarrow> (None, fs\<lparr>nodes := (nodes fs)(name \<mapsto> File data)\<rparr>)
      | None \<Rightarrow>
          (case create_error fs name of
             Some e \<Rightarrow> (Some e, fs)
           | None \<Rightarrow> (None, fs\<lparr>nodes := (nodes fs)(name \<mapsto> File data)\<rparr>)))"

text \<open>\<^verbatim>\<open>os.Getenv\<close> and the index expression \<^verbatim>\<open>m[key]\<close> of a Go map of strings: an
  absent key reads as the empty string.\<close>

definition os_Getenv :: "(string \<rightharpoonup> string) \<Rightarrow> string \<Rightarrow> string" where
  "os_Getenv env key = (case env key of None \<Rightarrow> [] | Some v \<Rightarrow> v)"

definition map_index :: "(string \<rightharpoonup> string) \<Rightarrow> string \<Rightarrow> string" where
  "map_index m key = (case m key of None \<Rightarrow> [] | Some v \<Rightarrow> v)"

text \<open>
  \<^verbatim>\<open>os/user.User\<close>.  \<^verbatim>\<open>user.Current()\<close> returns a pointer and an error; when the lookup
  fails the pointer is \<^verbatim>\<open>nil\<close>, which is \<^term>\<open>None\<close> here.
\<close>

record User =
  Uid :: string
  Gid :: string
  Username :: string
  Name :: string
  HomeDir :: string

subsection \<open>Path joining\<close>

text \<open>
  \<^verbatim>\<open>path/filepath.Clean\<close> and \<^verbatim>\<open>path/filepath.Join\<close> of the Go standard library, for
  Unix paths.  \<open>Clean\<close> reads the path from the left and writes to a buffer \<open>out\<close>;
  \<open>dotdot\<close> is the length of the buffer's part that a \<^verbatim>\<open>..\<close> element must not remove.
\<close>

function backtrack :: "string \<Rightarrow> nat \<Rightarrow> nat \<Rightarrow> nat" where
  "backtrack out dotdot w =
     (if w > dotdot \<and> out ! w \<noteq> CHR ''/'' then backtrack out dotdot (w - 1) else w)"
  by pat_completeness auto
termination
  by (relation "measure (\<lambda>(out, dotdot, w). w)") auto

declare backtrack.simps [simp del]

function clean_loop :: "bool \<Rightarrow> string \<Rightarrow> string \<Rightarrow> nat \<Rightarrow> string" where
  "clean_loop rooted [] out dotdot = out"
| "clean_loop rooted (c # cs) out dotdot =
     (if c = CHR ''/'' then clean_loop rooted cs out dotdot
      else if c = CHR ''.'' \<and> (cs = [] \<or> hd cs = CHR ''/'') then
        clean_loop rooted cs out dotdot
      else if c = CHR ''.'' \<and> hd cs = CHR ''.'' \<and> (tl cs = [] \<or> hd (tl cs) = CHR ''/'') then
        (if length out > dotdot then
           clean_loop rooted (tl cs) (take (backtrack out dotdot (length out - 1)) out) dotdot
         else if \<not> rooted then
           clean_loop rooted (tl cs)
             ((if length out > 0 then out @ ''/'' else out) @ ''..'')
             (length ((if length out > 0 then out @ ''/'' else out) @ ''..''))
         else clean_loop rooted (tl cs) out dotdot)
      else
        clean_loop rooted (dropWhile (\<lambda>x. x \<noteq> CHR ''/'') cs)
          ((if rooted \<and> length out \<noteq> 1 \<or> \<not> rooted \<and> length out \<noteq> 0 then out @ ''/'' else out)
             @ c # takeWhile (\<lambda>x. x \<noteq> CHR ''/'') cs)
          dotdot)"
  by pat_completeness auto
termination
proof (relation "measure (\<lambda>(rooted, path, out, dotdot). length path)")
  fix rooted :: bool and c :: char and cs out :: string and dotdot :: nat
  show "((rooted, dropWhile (\<lambda>x. x \<noteq> CHR ''/'') cs,
          (if rooted \<and> length out \<noteq> 1 \<or> \<not> rooted \<and> length out \<noteq> 0 then out @ ''/'' else out)
             @ c # takeWhile (\<lambda>x. x \<noteq> CHR ''/'') cs, dotdot),
         rooted, c # cs, out, dotdot)
        \<in> measure (\<lambda>(rooted, path, out, dotdot). length path)"
    using length_dropWhile_le [of "\<lambda>x. x \<noteq> CHR ''/''" cs] by simp
qed simp_all

definition Clean :: "string \<Rightarrow> string" where
  "Clean path =
     (if path = [] then ''.''
      else
        (let out = (if hd path = CHR ''/'' then clean_loop True (tl path) ''/'' 1
                    else clean_loop False path [] 0)
         in if out = [] then ''.'' else out))"

fun Join :: "string list \<Rightarrow> string" where
  "Join [] = []"
| "Join (e # es) = (if e \<noteq> [] then Clean (strings_Join (e # es) ''/'') else Join es)"

text \<open>A path element that \<open>Clean\<close> copies: not empty, without a separator, and neither
  \<^verbatim>\<open>.\<close> nor \<^verbatim>\<open>..\<close>.\<close>

definition plain_element :: "string \<Rightarrow> bool" where
  "plain_element e = (e \<noteq> [] \<and> CHR ''/'' \<notin> set e \<and> e \<noteq> ''.'' \<and> e \<noteq> ''..'')"

subsection \<open>Kubeconfig path\<close>

definition configDir :: string where "configDir = ''.config''"
definition tanzuConfigDir :: string where "tanzuConfigDir = ''tanzu''"

text \<open>The method \<^verbatim>\<open>KubeConfigPath\<close>, which reads \<^verbatim>\<open>HOME\<close> from the environment.\<close>

definition KubeConfigPath :: "(string \<rightharpoonup> string) \<Rightarrow> LocalClusterConfig \<Rightarrow> string" where
  "KubeConfigPath env lcc =
     Join [os_Getenv env ''HOME'', configDir, tanzuConfigDir, ClusterName lcc @ ''.yaml'']"

text \<open>
  \<^verbatim>\<open>sanatizeKubeconfigPath\<close>.  The first argument is what \<^verbatim>\<open>user.Current()\<close> returned;
  its error is discarded by the program and \<^verbatim>\<open>usr.HomeDir\<close> is read through the pointer.
\<close>

definition sanatizeKubeconfigPath :: "User option \<Rightarrow> string \<Rightarrow> error + string" where
  "sanatizeKubeconfigPath usr path =
     (let builder = [] in
      if strings_HasPrefix path ''~/'' then
        (case usr of
           None \<Rightarrow> Inl NilPointerPanic
         | Some u \<Rightarrow>
             (let builder = Join [builder, HomeDir u];
                  path = drop 2 path
              in Inr (Join [builder, path])))
      else Inr (Join [builder, path]))"

subsection \<open>Reflection over the configuration structure\<close>

datatype Kind = reflect_String | reflect_Map | reflect_Slice

datatype StructField = StructField (field_Name: string) (Tag_yaml: string) (Type_Kind: Kind)

text \<open>The fields of \<^verbatim>\<open>LocalClusterConfig\<close> in declaration order, with their \<^verbatim>\<open>yaml\<close> tags.\<close>

definition LocalClusterConfig_fields :: "StructField list" where
  "LocalClusterConfig_fields =
     [StructField ''ClusterName'' ''ClusterName'' reflect_String,
      StructField ''KubeconfigPath'' ''KubeconfigPath'' reflect_String,
      StructField ''NodeImage'' ''NodeImage'' reflect_String,
      StructField ''Provider'' ''Provider'' reflect_String,
      StructField ''ProviderConfiguration'' ''ProviderConfiguration'' reflect_Map,
      StructField ''Cni'' ''Cni'' reflect_String,
      StructField ''CNIConfiguration'' ''CniConfiguration'' reflect_Map,
      StructField ''PodCidr'' ''PodCidr'' reflect_String,
      StructField ''ServiceCidr'' ''ServiceCidr'' reflect_String,
      StructField ''TkrLocation'' ''TkrLocation'' reflect_String,
      StructField ''PortsToForward'' ''PortsToForward'' reflect_Slice,
      StructField ''Tty'' ''Tty'' reflect_String]"

text \<open>
  \<^verbatim>\<open>element.FieldByName(name).String()\<close>: the field's value when it is a string, and
  otherwise the description that \<^verbatim>\<open>reflect.Value.String\<close> gives of the value.
\<close>

definition FieldByName_String :: "string \<Rightarrow> LocalClusterConfig \<Rightarrow> string" where
  "FieldByName_String name c =
     (if name = ''ClusterName'' then ClusterName c
      else if name = ''KubeconfigPath'' then KubeconfigPath c
      else if name = ''NodeImage'' then NodeImage c
      else if name = ''Provider'' then Provider c
      else if name = ''ProviderConfiguration'' then ''<map[string]interface {} Value>''
      else if name = ''Cni'' then Cni c
      else if name = ''CNIConfiguration'' then ''<map[string]interface {} Value>''
      else if name = ''PodCidr'' then PodCidr c
      else if name = ''ServiceCidr'' then ServiceCidr c
      else if name = ''TkrLocation'' then TkrLocation c
      else if name = ''PortsToForward'' then ''<[]config.PortMap Value>''
      else if name = ''Tty'' then Tty c
      else ''<invalid Value>'')"

text \<open>\<^verbatim>\<open>element.FieldByName(name).SetString(value)\<close>, which panics on anything but a
  string field.\<close>

definition FieldByName_SetString ::
  "string \<Rightarrow> string \<Rightarrow> LocalClusterConfig \<Rightarrow> error + LocalClusterConfig" where
  "FieldByName_SetString name v c =
     (if name = ''ClusterName'' then Inr (c\<lparr>ClusterName := v\<rparr>)
      else if name = ''KubeconfigPath'' then Inr (c\<lparr>KubeconfigPath := v\<rparr>)
      else if name = ''NodeImage'' then Inr (c\<lparr>NodeImage := v\<rparr>)
      else if name = ''Provider'' then Inr (c\<lparr>Provider := v\<rparr>)
      else if name = ''Cni'' then Inr (c\<lparr>Cni := v\<rparr>)
      else if name = ''PodCidr'' then Inr (c\<lparr>PodCidr := v\<rparr>)
      else if name = ''ServiceCidr'' then Inr (c\<lparr>ServiceCidr := v\<rparr>)
      else if name = ''TkrLocation'' then Inr (c\<lparr>TkrLocation := v\<rparr>)
      else if name = ''Tty'' then Inr (c\<lparr>Tty := v\<rparr>)
      else Inl ReflectPanic)"

subsection \<open>Resolution\<close>

text \<open>
  One pass of the loop of \<^verbatim>\<open>InitializeConfiguration\<close> over a field: a field that is
  not a string is skipped; otherwise an explicit argument that is present and not
  empty is stored, else an environment variable that is not empty; and then, if the
  field reads as empty, its default when it has one.
\<close>

definition overlay_field ::
  "(string \<rightharpoonup> string) \<Rightarrow> (string \<rightharpoonup> string) \<Rightarrow> StructField \<Rightarrow> LocalClusterConfig
     \<Rightarrow> error + LocalClusterConfig" where
  "overlay_field commandArgs env field config =
     (if Type_Kind field \<noteq> reflect_String then Inr config
      else
        (let fieldName = (if Tag_yaml field = [] then field_Name field else Tag_yaml field);
             stored =
               (case commandArgs fieldName of
                  Some v \<Rightarrow>
                    if v \<noteq> [] then FieldByName_SetString (field_Name field) v config
                    else if os_Getenv env (fieldNameToEnvName fieldName) \<noteq> [] then
                      FieldByName_SetString (field_Name field)
                        (os_Getenv env (fieldNameToEnvName fieldName)) config
                    else Inr config
                | None \<Rightarrow>
                    if os_Getenv env (fieldNameToEnvName fieldName) \<noteq> [] then
                      FieldByName_SetString (field_Name field)
                        (os_Getenv env (fieldNameToEnvName fieldName)) config
                    else Inr config)
         in case stored of
              Inl e \<Rightarrow> Inl e
            | Inr config \<Rightarrow>
                if FieldByName_String (field_Name field) config = [] then
                  (case defaultConfigValues fieldName of
                     Some d \<Rightarrow> FieldByName_SetString (field_Name field) d config
                   | None \<Rightarrow> Inr config)
                else Inr config))"

fun overlay_fields ::
  "(string \<rightharpoonup> string) \<Rightarrow> (string \<rightharpoonup> string) \<Rightarrow> StructField list \<Rightarrow> LocalClusterConfig
     \<Rightarrow> error + LocalClusterConfig" where
  "overlay_fields commandArgs env [] config = Inr config"
| "overlay_fields commandArgs env (field # rest) config =
     (case overlay_field commandArgs env field config of
        Inl e \<Rightarrow> Inl e
      | Inr config \<Rightarrow> overlay_fields commandArgs env rest config)"

text \<open>
  The first step of \<^verbatim>\<open>InitializeConfiguration\<close>: the configuration starts as the zero
  value and, when a configuration file is named, the file is read and decoded into it.
  \<open>unmarshal\<close> stands for \<^verbatim>\<open>yaml.Unmarshal\<close> into a zero \<^verbatim>\<open>LocalClusterConfig\<close>: it gives
  the decoded configuration or the library's error.
\<close>

definition baseline ::
  "(string \<Rightarrow> string + LocalClusterConfig) \<Rightarrow> filesystem \<Rightarrow> (string \<rightharpoonup> string)
     \<Rightarrow> error + LocalClusterConfig" where
  "baseline unmarshal fs commandArgs =
     (if map_index commandArgs ClusterConfigFile \<noteq> [] then
        (case os_ReadFile fs (map_index commandArgs ClusterConfigFile) of
           Inl err \<Rightarrow> Inl (PathError err)
         | Inr configData \<Rightarrow>
             (case unmarshal configData of
                Inl err \<Rightarrow> Inl (YAMLError err)
              | Inr config \<Rightarrow> Inr config))
      else Inr zero_LocalClusterConfig)"

definition InitializeConfiguration ::
  "(string \<Rightarrow> string + LocalClusterConfig) \<Rightarrow> filesystem \<Rightarrow> (string \<rightharpoonup> string) \<Rightarrow> User option
     \<Rightarrow> (string \<rightharpoonup> string) \<Rightarrow> error + LocalClusterConfig" where
  "InitializeConfiguration unmarshal fs env usr commandArgs =
     (case baseline unmarshal fs commandArgs of
        Inl e \<Rightarrow> Inl e
      | Inr config \<Rightarrow>
          (case overlay_fields commandArgs env LocalClusterConfig_fields config of
             Inl e \<Rightarrow> Inl e
           | Inr config \<Rightarrow>
               if ClusterName config = [] then Inl ClusterNameMissing
               else
                 (case sanatizeKubeconfigPath usr (KubeconfigPath config) of
                    Inl e \<Rightarrow> Inl e
                  | Inr p \<Rightarrow> Inr (config\<lparr>KubeconfigPath := p\<rparr>))))"

subsection \<open>Persistence\<close>

text \<open>
  \<^verbatim>\<open>RenderConfigToFile\<close>.  \<open>encode\<close> stands for the YAML encoder with indentation 2: it
  gives the document or the library's error.  The result is the returned error
  (\<^term>\<open>None\<close> for \<^verbatim>\<open>nil\<close>) and the file system afterwards.
\<close>

definition RenderConfigToFile ::
  "('a \<Rightarrow> string + string) \<Rightarrow> filesystem \<Rightarrow> string \<Rightarrow> 'a \<Rightarrow> error option \<times> filesystem" where
  "RenderConfigToFile encode fs filePath config =
     (let err = os_ReadDir fs filePath in
      if \<not> os_IsNotExist err then (Some (CreateFailed filePath), fs)
      else
        (case encode config of
           Inl err \<Rightarrow> (Some (RenderFailed err), fs)
         | Inr rawConfig \<Rightarrow>
             (case os_WriteFile fs filePath rawConfig of
                (Some err, fs') \<Rightarrow> (Some (WriteFailed err), fs')
              | (None, fs') \<Rightarrow> (None, fs'))))"

definition RenderFileToConfig ::
  "(string \<Rightarrow> string + LocalClusterConfig) \<Rightarrow> filesystem \<Rightarrow> string \<Rightarrow> error + LocalClusterConfig" where
  "RenderFileToConfig unmarshal fs filePath =
     (case os_ReadFile fs filePath of
        Inl err \<Rightarrow> Inl (ReadFailed err)
      | Inr d \<Rightarrow>
          (case unmarshal d of
             Inl err \<Rightarrow> Inl (InvalidConfiguration filePath err)
           | Inr lcc \<Rightarrow> Inr lcc))"

subsection \<open>The precedence rule as the specification words it\<close>

text \<open>
  The value the specification gives a string field with serialization key \<open>key\<close>: the
  explicit argument when it is not empty, otherwise the environment variable when it
  is not empty, otherwise the value \<open>fileValue\<close> loaded from the configuration file; and
  the registered default only when that is still the empty string.
\<close>

definition spec_precedence ::
  "(string \<rightharpoonup> string) \<Rightarrow> (string \<rightharpoonup> string) \<Rightarrow> string \<Rightarrow> string \<Rightarrow> string" where
  "spec_precedence commandArgs env key fileValue =
     (let v = (if map_index commandArgs key \<noteq> [] then map_index commandArgs key
               else if os_Getenv env (fieldNameToEnvName key) \<noteq> [] then
                 os_Getenv env (fieldNameToEnvName key)
               else fileValue)
      in if v = [] then (case defaultConfigValues key of Some d \<Rightarrow> d | None \<Rightarrow> []) else v)"

subsection \<open>Sample surroundings\<close>

text \<open>
  Concrete inputs for the closed instances below: a document in flow style, the
  configuration it decodes to, a decoder that knows this document and the empty
  mapping, an encoder that always writes the document, a file system holding both documents
  and a directory, in which a file cannot be created under the missing directory
  \<^verbatim>\<open>missing\<close>, and a user.
\<close>

definition sample_document :: string where
  "sample_document =
     ''{ClusterName: demo, ProviderConfiguration: {image: kind}, PortsToForward: [{HostPort: 80, ContainerPort: 8080}]}''"

definition sample_config :: LocalClusterConfig where
  "sample_config =
     zero_LocalClusterConfig
       \<lparr>ClusterName := ''demo'',
        ProviderConfiguration := [''image'' \<mapsto> YStr ''kind''],
        PortsToForward := [\<lparr>HostPort = 80, ContainerPort = 8080\<rparr>]\<rparr>"

definition sample_unmarshal :: "string \<Rightarrow> string + LocalClusterConfig" where
  "sample_unmarshal d =
     (if d = sample_document then Inr sample_config
      else if d = ''{}'' then Inr zero_LocalClusterConfig
      else Inl ''yaml: unmarshal errors'')"

definition sample_encode :: "LocalClusterConfig \<Rightarrow> string + string" where
  "sample_encode c = Inr sample_document"

definition sample_fs :: filesystem where
  "sample_fs =
     \<lparr>nodes = [''cluster.yaml'' \<mapsto> File sample_document, ''empty.yaml'' \<mapsto> File ''{}'',
               ''clusters'' \<mapsto> Dir],
      create_error = [''missing/cluster.yaml'' \<mapsto> ENOENT]\<rparr>"

definition sample_user :: User where
  "sample_user =
     \<lparr>Uid = ''1000'', Gid = ''1000'', Username = ''user'', Name = ''User'',
      HomeDir = ''/home/user''\<rparr>"

section \<open>Properties\<close>

lemmas key_defs =
  ClusterConfigFile_def ClusterName_key_def Tty_key_def TKRLocation_def
  Provider_key_def Cni_key_def PodCIDR_def ServiceCIDR_def

subsection \<open>Environment-variable names\<close>

lemma FindAllString_words:
  "list_all (\<lambda>w. w \<noteq> [] \<and> is_AZ (hd w) \<and> list_all (\<lambda>c. \<not> is_AZ c) (tl w)) (FindAllString s)"
proof (induction s rule: FindAllString.induct)
  case (1 s)
  show ?case
  proof (cases "dropWhile (\<lambda>c. \<not> is_AZ c) s")
    case Nil
    show ?thesis
      by (subst FindAllString.simps) (simp add: Nil)
  next
    case (Cons c t)
    have "is_AZ c"
      using hd_dropWhile [of "\<lambda>c. \<not> is_AZ c" s] Cons by simp
    moreover have "list_all (\<lambda>c. \<not> is_AZ c) (takeWhile (\<lambda>c. \<not> is_AZ c) t)"
      by (auto simp: list_all_iff dest: set_takeWhileD)
    ultimately show ?thesis
      using "1.IH" [OF Cons] Cons by (subst FindAllString.simps) simp
  qed
qed

lemma FindAllString_concat:
  "concat (FindAllString s) = dropWhile (\<lambda>c. \<not> is_AZ c) s"
proof (induction s rule: FindAllString.induct)
  case (1 s)
  show ?case
  proof (cases "dropWhile (\<lambda>c. \<not> is_AZ c) s")
    case Nil
    show ?thesis
      by (subst FindAllString.simps) (simp only: Nil list.case concat.simps)
  next
    case (Cons c t)
    have "concat (FindAllString s)
        = c # takeWhile (\<lambda>c. \<not> is_AZ c) t @ concat (FindAllString (dropWhile (\<lambda>c. \<not> is_AZ c) t))"
      using Cons by (subst FindAllString.simps) simp
    also have "\<dots> = c # takeWhile (\<lambda>c. \<not> is_AZ c) t
                       @ dropWhile (\<lambda>c. \<not> is_AZ c) (dropWhile (\<lambda>c. \<not> is_AZ c) t)"
      using "1.IH" [OF Cons] by simp
    also have "\<dots> = c # t"
      by (simp add: dropWhile_idem)
    finally show ?thesis using Cons by simp
  qed
qed

text \<open>
  Claim C6.  The environment-variable name of a serialization key is the prefix
  \<^verbatim>\<open>TANZU\<close> followed, for each word of the key, by an underscore and the word in upper
  case, where the words are the pieces of the key that start at its capital letters:
  each word begins with a capital and has no other, and the words put together give
  the key back from its first capital on.  So \<^verbatim>\<open>PodCidr\<close> gives \<^verbatim>\<open>TANZU_POD_CIDR\<close>,
  \<^verbatim>\<open>ClusterName\<close> gives \<^verbatim>\<open>TANZU_CLUSTER_NAME\<close> and the single word \<^verbatim>\<open>Provider\<close> gives
  \<^verbatim>\<open>TANZU_PROVIDER\<close>.
\<close>

theorem fieldNameToEnvName_derivation:
  "fieldNameToEnvName ''PodCidr'' = ''TANZU_POD_CIDR'' \<and>
   fieldNameToEnvName ''ClusterName'' = ''TANZU_CLUSTER_NAME'' \<and>
   fieldNameToEnvName ''Provider'' = ''TANZU_PROVIDER'' \<and>
   fieldNameToEnvName k =
     ''TANZU'' @ concat (map (\<lambda>w. ''_'' @ strings_ToUpper w) (FindAllString k)) \<and>
   list_all (\<lambda>w. w \<noteq> [] \<and> is_AZ (hd w) \<and> list_all (\<lambda>c. \<not> is_AZ c) (tl w))
     (FindAllString k) \<and>
   concat (FindAllString k) = dropWhile (\<lambda>c. \<not> is_AZ c) k"
proof -
  have e1: "fieldNameToEnvName ''PodCidr'' = ''TANZU_POD_CIDR''"
    by code_simp
  have e2: "fieldNameToEnvName ''ClusterName'' = ''TANZU_CLUSTER_NAME''"
    by code_simp
  have e3: "fieldNameToEnvName ''Provider'' = ''TANZU_PROVIDER''"
    by code_simp
  have join: "strings_Join (x # ws) ''_'' = x @ concat (map (\<lambda>w. ''_'' @ w) ws)" for x ws
    by (induction ws arbitrary: x) simp_all
  have g: "fieldNameToEnvName k =
     ''TANZU'' @ concat (map (\<lambda>w. ''_'' @ strings_ToUpper w) (FindAllString k))"
    unfolding fieldNameToEnvName_def by (simp only: append.simps join map_map comp_def)
  show ?thesis
    using e1 e2 e3 g FindAllString_words [of k] FindAllString_concat [of k] by blast
qed

subsection \<open>The loop over the fields\<close>

lemma overlay_field_skip:
  "k \<noteq> reflect_String \<Longrightarrow> overlay_field a e (StructField n t k) c = Inr c"
  by (simp add: overlay_field_def)

lemma overlay_field_ClusterName:
  "overlay_field a e (StructField ''ClusterName'' ''ClusterName'' reflect_String) c =
     Inr (c\<lparr>ClusterName := spec_precedence a e ''ClusterName'' (ClusterName c)\<rparr>)"
  by (simp add: overlay_field_def spec_precedence_def map_index_def Let_def
        FieldByName_SetString_def FieldByName_String_def split: option.split)

lemma overlay_field_KubeconfigPath:
  "overlay_field a e (StructField ''KubeconfigPath'' ''KubeconfigPath'' reflect_String) c =
     Inr (c\<lparr>KubeconfigPath := spec_precedence a e ''KubeconfigPath'' (KubeconfigPath c)\<rparr>)"
  by (simp add: overlay_field_def spec_precedence_def map_index_def Let_def
        FieldByName_SetString_def FieldByName_String_def split: option.split)

lemma overlay_field_NodeImage:
  "overlay_field a e (StructField ''NodeImage'' ''NodeImage'' reflect_String) c =
     Inr (c\<lparr>NodeImage := spec_precedence a e ''NodeImage'' (NodeImage c)\<rparr>)"
  by (simp add: overlay_field_def spec_precedence_def map_index_def Let_def
        FieldByName_SetString_def FieldByName_String_def split: option.split)

lemma overlay_field_Provider:
  "overlay_field a e (StructField ''Provider'' ''Provider'' reflect_String) c =
     Inr (c\<lparr>Provider := spec_precedence a e ''Provider'' (Provider c)\<rparr>)"
  by (simp add: overlay_field_def spec_precedence_def map_index_def Let_def
        FieldByName_SetString_def FieldByName_String_def split: option.split)

lemma overlay_field_Cni:
  "overlay_field a e (StructField ''Cni'' ''Cni'' reflect_String) c =
     Inr (c\<lparr>Cni := spec_precedence a e ''Cni'' (Cni c)\<rparr>)"
  by (simp add: overlay_field_def spec_precedence_def map_index_def Let_def
        FieldByName_SetString_def FieldByName_String_def split: option.split)

lemma overlay_field_PodCidr:
  "overlay_field a e (StructField ''PodCidr'' ''PodCidr'' reflect_String) c =
     Inr (c\<lparr>PodCidr := spec_precedence a e ''PodCidr'' (PodCidr c)\<rparr>)"
  by (simp add: overlay_field_def spec_precedence_def map_index_def Let_def
        FieldByName_SetString_def FieldByName_String_def split: option.split)

lemma overlay_field_ServiceCidr:
  "overlay_field a e (StructField ''ServiceCidr'' ''ServiceCidr'' reflect_String) c =
     Inr (c\<lparr>ServiceCidr := spec_precedence a e ''ServiceCidr'' (ServiceCidr c)\<rparr>)"
  by (simp add: overlay_field_def spec_precedence_def map_index_def Let_def
        FieldByName_SetString_def FieldByName_String_def split: option.split)

lemma overlay_field_TkrLocation:
  "overlay_field a e (StructField ''TkrLocation'' ''TkrLocation'' reflect_String) c =
     Inr (c\<lparr>TkrLocation := spec_precedence a e ''TkrLocation'' (TkrLocation c)\<rparr>)"
  by (simp add: overlay_field_def spec_precedence_def map_index_def Let_def
        FieldByName_SetString_def FieldByName_String_def split: option.split)

lemma overlay_field_Tty:
  "overlay_field a e (StructField ''Tty'' ''Tty'' reflect_String) c =
     Inr (c\<lparr>Tty := spec_precedence a e ''Tty'' (Tty c)\<rparr>)"
  by (simp add: overlay_field_def spec_precedence_def map_index_def Let_def
        FieldByName_SetString_def FieldByName_String_def split: option.split)


lemma overlay_fields_closed:
  "overlay_fields a e LocalClusterConfig_fields c =
     Inr (c\<lparr>ClusterName := spec_precedence a e ''ClusterName'' (ClusterName c),
            KubeconfigPath := spec_precedence a e ''KubeconfigPath'' (KubeconfigPath c),
            NodeImage := spec_precedence a e ''NodeImage'' (NodeImage c),
            Provider := spec_precedence a e ''Provider'' (Provider c),
            Cni := spec_precedence a e ''Cni'' (Cni c),
            PodCidr := spec_precedence a e ''PodCidr'' (PodCidr c),
            ServiceCidr := spec_precedence a e ''ServiceCidr'' (ServiceCidr c),
            TkrLocation := spec_precedence a e ''TkrLocation'' (TkrLocation c),
            Tty := spec_precedence a e ''Tty'' (Tty c)\<rparr>)"
  unfolding LocalClusterConfig_fields_def
  by (simp add: overlay_field_skip overlay_field_ClusterName overlay_field_KubeconfigPath
        overlay_field_NodeImage overlay_field_Provider overlay_field_Cni overlay_field_PodCidr
        overlay_field_ServiceCidr overlay_field_TkrLocation overlay_field_Tty)

lemma InitializeConfiguration_closed:
  assumes "baseline unmarshal fs commandArgs = Inr base"
  shows "InitializeConfiguration unmarshal fs env usr commandArgs =
     (if spec_precedence commandArgs env ''ClusterName'' (ClusterName base) = [] then
        Inl ClusterNameMissing
      else
        (case sanatizeKubeconfigPath usr
                (spec_precedence commandArgs env ''KubeconfigPath'' (KubeconfigPath base)) of
           Inl e \<Rightarrow> Inl e
         | Inr p \<Rightarrow>
             Inr (base\<lparr>ClusterName := spec_precedence commandArgs env ''ClusterName'' (ClusterName base),
                    KubeconfigPath := p,
                    NodeImage := spec_precedence commandArgs env ''NodeImage'' (NodeImage base),
                    Provider := spec_precedence commandArgs env ''Provider'' (Provider base),
                    Cni := spec_precedence commandArgs env ''Cni'' (Cni base),
                    PodCidr := spec_precedence commandArgs env ''PodCidr'' (PodCidr base),
                    ServiceCidr := spec_precedence commandArgs env ''ServiceCidr'' (ServiceCidr base),
                    TkrLocation := spec_precedence commandArgs env ''TkrLocation'' (TkrLocation base),
                    Tty := spec_precedence commandArgs env ''Tty'' (Tty base)\<rparr>)))"
  unfolding InitializeConfiguration_def
  by (simp add: assms overlay_fields_closed split: sum.split)


lemma fieldNameToEnvName_keys:
  "fieldNameToEnvName ''ClusterName'' = ''TANZU_CLUSTER_NAME''"
  "fieldNameToEnvName ''KubeconfigPath'' = ''TANZU_KUBECONFIG_PATH''"
  "fieldNameToEnvName ''NodeImage'' = ''TANZU_NODE_IMAGE''"
  "fieldNameToEnvName ''Provider'' = ''TANZU_PROVIDER''"
  "fieldNameToEnvName ''Cni'' = ''TANZU_CNI''"
  "fieldNameToEnvName ''PodCidr'' = ''TANZU_POD_CIDR''"
  "fieldNameToEnvName ''ServiceCidr'' = ''TANZU_SERVICE_CIDR''"
  "fieldNameToEnvName ''TkrLocation'' = ''TANZU_TKR_LOCATION''"
  "fieldNameToEnvName ''Tty'' = ''TANZU_TTY''"
  by code_simp+


text \<open>
  Claim C1.  For every string field of the configuration, the loop of
  \<^verbatim>\<open>InitializeConfiguration\<close> leaves the value that the precedence rule gives from the
  explicit arguments, the environment, the value loaded from the configuration file
  and the defaults, in that order.  A configuration that \<^verbatim>\<open>InitializeConfiguration\<close>
  returns has these values in every string field but the kubeconfig path, which is
  the sanitized form of the value the rule gives.
\<close>

theorem resolution_precedence:
  assumes "baseline unmarshal fs commandArgs = Inr base"
  shows "\<exists>merged.
      overlay_fields commandArgs env LocalClusterConfig_fields base = Inr merged \<and>
      (\<forall>f \<in> set LocalClusterConfig_fields. Type_Kind f = reflect_String \<longrightarrow>
         FieldByName_String (field_Name f) merged =
           spec_precedence commandArgs env (Tag_yaml f) (FieldByName_String (field_Name f) base)) \<and>
      (\<forall>c. InitializeConfiguration unmarshal fs env usr commandArgs = Inr c \<longrightarrow>
         (\<forall>f \<in> set LocalClusterConfig_fields.
            Type_Kind f = reflect_String \<and> field_Name f \<noteq> ''KubeconfigPath'' \<longrightarrow>
            FieldByName_String (field_Name f) c = FieldByName_String (field_Name f) merged) \<and>
         sanatizeKubeconfigPath usr (KubeconfigPath merged) = Inr (KubeconfigPath c))"
proof -
  let ?m = "base\<lparr>ClusterName := spec_precedence commandArgs env ''ClusterName'' (ClusterName base),
            KubeconfigPath := spec_precedence commandArgs env ''KubeconfigPath'' (KubeconfigPath base),
            NodeImage := spec_precedence commandArgs env ''NodeImage'' (NodeImage base),
            Provider := spec_precedence commandArgs env ''Provider'' (Provider base),
            Cni := spec_precedence commandArgs env ''Cni'' (Cni base),
            PodCidr := spec_precedence commandArgs env ''PodCidr'' (PodCidr base),
            ServiceCidr := spec_precedence commandArgs env ''ServiceCidr'' (ServiceCidr base),
            TkrLocation := spec_precedence commandArgs env ''TkrLocation'' (TkrLocation base),
            Tty := spec_precedence commandArgs env ''Tty'' (Tty base)\<rparr>"
  have m: "overlay_fields commandArgs env LocalClusterConfig_fields base = Inr ?m"
    by (rule overlay_fields_closed)
  have p: "\<forall>f \<in> set LocalClusterConfig_fields. Type_Kind f = reflect_String \<longrightarrow>
         FieldByName_String (field_Name f) ?m =
           spec_precedence commandArgs env (Tag_yaml f) (FieldByName_String (field_Name f) base)"
    by (simp add: LocalClusterConfig_fields_def FieldByName_String_def)
  have q: "(\<forall>f \<in> set LocalClusterConfig_fields.
            Type_Kind f = reflect_String \<and> field_Name f \<noteq> ''KubeconfigPath'' \<longrightarrow>
            FieldByName_String (field_Name f) c = FieldByName_String (field_Name f) ?m) \<and>
         sanatizeKubeconfigPath usr (KubeconfigPath ?m) = Inr (KubeconfigPath c)"
    if "InitializeConfiguration unmarshal fs env usr commandArgs = Inr c" for c
    using that unfolding InitializeConfiguration_closed [OF assms]
    by (auto simp: LocalClusterConfig_fields_def FieldByName_String_def
          split: if_splits sum.splits)
  show ?thesis using m p q by blast
qed

theorem resolution_precedence_witness:
  "baseline sample_unmarshal sample_fs
      [''ClusterConfigFile'' \<mapsto> ''cluster.yaml'', ''PodCidr'' \<mapsto> ''10.0.0.0/16'', ''Cni'' \<mapsto> []]
     = Inr sample_config \<and>
   (\<exists>c. InitializeConfiguration sample_unmarshal sample_fs
          [''TANZU_POD_CIDR'' \<mapsto> ''10.1.0.0/16'', ''TANZU_CNI'' \<mapsto> ''calico'']
          (Some sample_user)
          [''ClusterConfigFile'' \<mapsto> ''cluster.yaml'', ''PodCidr'' \<mapsto> ''10.0.0.0/16'', ''Cni'' \<mapsto> []]
        = Inr c \<and>
        ClusterName c = ''demo'' \<and> PodCidr c = ''10.0.0.0/16'' \<and> Cni c = ''calico'' \<and>
        Provider c = ''kind'' \<and> NodeImage c = [])"
proof -
  have b: "baseline sample_unmarshal sample_fs
      [''ClusterConfigFile'' \<mapsto> ''cluster.yaml'', ''PodCidr'' \<mapsto> ''10.0.0.0/16'', ''Cni'' \<mapsto> []]
     = Inr sample_config"
    by (simp add: baseline_def map_index_def ClusterConfigFile_def os_ReadFile_def sample_fs_def
          sample_unmarshal_def)
  note e = fieldNameToEnvName_keys
  have s: "sanatizeKubeconfigPath (Some sample_user) [] = Inr []"
    by (simp add: sanatizeKubeconfigPath_def strings_HasPrefix_def)
  have i: "\<exists>c. InitializeConfiguration sample_unmarshal sample_fs
          [''TANZU_POD_CIDR'' \<mapsto> ''10.1.0.0/16'', ''TANZU_CNI'' \<mapsto> ''calico'']
          (Some sample_user)
          [''ClusterConfigFile'' \<mapsto> ''cluster.yaml'', ''PodCidr'' \<mapsto> ''10.0.0.0/16'', ''Cni'' \<mapsto> []]
        = Inr c"
    unfolding InitializeConfiguration_closed [OF b]
    by (simp add: spec_precedence_def map_index_def os_Getenv_def e s
          sample_config_def zero_LocalClusterConfig_def defaultConfigValues_def key_defs)
  then obtain c where c: "InitializeConfiguration sample_unmarshal sample_fs
          [''TANZU_POD_CIDR'' \<mapsto> ''10.1.0.0/16'', ''TANZU_CNI'' \<mapsto> ''calico'']
          (Some sample_user)
          [''ClusterConfigFile'' \<mapsto> ''cluster.yaml'', ''PodCidr'' \<mapsto> ''10.0.0.0/16'', ''Cni'' \<mapsto> []]
        = Inr c" ..
  from resolution_precedence [OF b,
      of "[''TANZU_POD_CIDR'' \<mapsto> ''10.1.0.0/16'', ''TANZU_CNI'' \<mapsto> ''calico'']" "Some sample_user"]
  obtain merged where
    m: "\<forall>f \<in> set LocalClusterConfig_fields. Type_Kind f = reflect_String \<longrightarrow>
         FieldByName_String (field_Name f) merged =
           spec_precedence
             [''ClusterConfigFile'' \<mapsto> ''cluster.yaml'', ''PodCidr'' \<mapsto> ''10.0.0.0/16'', ''Cni'' \<mapsto> []]
             [''TANZU_POD_CIDR'' \<mapsto> ''10.1.0.0/16'', ''TANZU_CNI'' \<mapsto> ''calico'']
             (Tag_yaml f) (FieldByName_String (field_Name f) sample_config)"
    and r: "\<forall>c. InitializeConfiguration sample_unmarshal sample_fs
          [''TANZU_POD_CIDR'' \<mapsto> ''10.1.0.0/16'', ''TANZU_CNI'' \<mapsto> ''calico'']
          (Some sample_user)
          [''ClusterConfigFile'' \<mapsto> ''cluster.yaml'', ''PodCidr'' \<mapsto> ''10.0.0.0/16'', ''Cni'' \<mapsto> []]
        = Inr c \<longrightarrow>
         (\<forall>f \<in> set LocalClusterConfig_fields.
            Type_Kind f = reflect_String \<and> field_Name f \<noteq> ''KubeconfigPath'' \<longrightarrow>
            FieldByName_String (field_Name f) c = FieldByName_String (field_Name f) merged)"
    by blast
  have "ClusterName c = ''demo'' \<and> PodCidr c = ''10.0.0.0/16'' \<and> Cni c = ''calico'' \<and>
        Provider c = ''kind'' \<and> NodeImage c = []"
    using m r [THEN spec, of c, THEN mp, OF c]
    by (simp add: LocalClusterConfig_fields_def FieldByName_String_def
          spec_precedence_def map_index_def os_Getenv_def e
          sample_config_def zero_LocalClusterConfig_def defaultConfigValues_def key_defs)
  with b c show ?thesis by blast
qed

subsection \<open>Defaults, the required cluster name, and the fields the loop skips\<close>

lemma baseline_no_file:
  "map_index commandArgs ClusterConfigFile = [] \<Longrightarrow>
     baseline unmarshal fs commandArgs = Inr zero_LocalClusterConfig"
  by (simp add: baseline_def)

lemma sanatizeKubeconfigPath_empty: "sanatizeKubeconfigPath usr [] = Inr []"
  by (simp add: sanatizeKubeconfigPath_def strings_HasPrefix_def)

text \<open>
  Claim C3.  With no configuration file, none of the string fields' environment
  variables set and the cluster name as the only explicit argument,
  \<^verbatim>\<open>InitializeConfiguration\<close> succeeds: the provider is \<^verbatim>\<open>kind\<close>, the CNI \<^verbatim>\<open>antrea\<close>, the pod
  CIDR \<^verbatim>\<open>10.244.0.0/16\<close>, the service CIDR \<^verbatim>\<open>10.96.0.0/16\<close>, the TTY flag \<^verbatim>\<open>true\<close>, the
  release location the default image reference, the cluster name the given one, and
  every other field is empty.
\<close>

theorem defaults_with_cluster_name_only:
  assumes "name \<noteq> []"
    and "\<forall>f \<in> set LocalClusterConfig_fields. Type_Kind f = reflect_String \<longrightarrow>
           os_Getenv env (fieldNameToEnvName (Tag_yaml f)) = []"
  shows "InitializeConfiguration unmarshal fs env usr [ClusterName_key \<mapsto> name] =
     Inr \<lparr>ClusterName = name, KubeconfigPath = [], NodeImage = [], Provider = ''kind'',
          ProviderConfiguration = Map.empty, Cni = ''antrea'', CNIConfiguration = Map.empty,
          PodCidr = ''10.244.0.0/16'', ServiceCidr = ''10.96.0.0/16'',
          TkrLocation = ''projects.registry.vmware.com/tce/tkr:v1.21.5'',
          PortsToForward = [], Tty = ''true''\<rparr>"
proof -
  have b: "baseline unmarshal fs [ClusterName_key \<mapsto> name] = Inr zero_LocalClusterConfig"
    by (rule baseline_no_file) (simp add: map_index_def key_defs)
  have e: "os_Getenv env (fieldNameToEnvName ''ClusterName'') = []"
    "os_Getenv env (fieldNameToEnvName ''KubeconfigPath'') = []"
    "os_Getenv env (fieldNameToEnvName ''NodeImage'') = []"
    "os_Getenv env (fieldNameToEnvName ''Provider'') = []"
    "os_Getenv env (fieldNameToEnvName ''Cni'') = []"
    "os_Getenv env (fieldNameToEnvName ''PodCidr'') = []"
    "os_Getenv env (fieldNameToEnvName ''ServiceCidr'') = []"
    "os_Getenv env (fieldNameToEnvName ''TkrLocation'') = []"
    "os_Getenv env (fieldNameToEnvName ''Tty'') = []"
    using assms(2) by (simp_all add: LocalClusterConfig_fields_def)
  show ?thesis
    unfolding InitializeConfiguration_closed [OF b]
    using assms(1)
    by (simp add: spec_precedence_def map_index_def e key_defs defaultConfigValues_def
          zero_LocalClusterConfig_def sanatizeKubeconfigPath_empty)
qed

theorem defaults_with_cluster_name_only_witness:
  "''demo'' \<noteq> [] \<and>
   list_all (\<lambda>f. os_Getenv [''HOME'' \<mapsto> ''/home/user''] (fieldNameToEnvName (Tag_yaml f)) = [])
     (filter (\<lambda>f. Type_Kind f = reflect_String) LocalClusterConfig_fields) \<and>
   InitializeConfiguration sample_unmarshal sample_fs [''HOME'' \<mapsto> ''/home/user''] None
       [ClusterName_key \<mapsto> ''demo''] =
     Inr \<lparr>ClusterName = ''demo'', KubeconfigPath = [], NodeImage = [], Provider = ''kind'',
          ProviderConfiguration = Map.empty, Cni = ''antrea'', CNIConfiguration = Map.empty,
          PodCidr = ''10.244.0.0/16'', ServiceCidr = ''10.96.0.0/16'',
          TkrLocation = ''projects.registry.vmware.com/tce/tkr:v1.21.5'',
          PortsToForward = [], Tty = ''true''\<rparr>"
proof -
  have n: "''demo'' \<noteq> []" by simp
  have e: "\<forall>f \<in> set LocalClusterConfig_fields. Type_Kind f = reflect_String \<longrightarrow>
      os_Getenv [''HOME'' \<mapsto> ''/home/user''] (fieldNameToEnvName (Tag_yaml f)) = []"
    by (simp add: LocalClusterConfig_fields_def fieldNameToEnvName_keys os_Getenv_def)
  have l: "list_all (\<lambda>f. os_Getenv [''HOME'' \<mapsto> ''/home/user''] (fieldNameToEnvName (Tag_yaml f)) = [])
     (filter (\<lambda>f. Type_Kind f = reflect_String) LocalClusterConfig_fields)"
    using e by (simp add: list_all_iff)
  show ?thesis
    using n l defaults_with_cluster_name_only [OF n e, of sample_unmarshal sample_fs None]
    by blast
qed

text \<open>
  Claim C4.  When the cluster name is empty in the explicit arguments, in the
  environment and in the loaded file (it has no default), \<^verbatim>\<open>InitializeConfiguration\<close>
  returns the error \<^verbatim>\<open>cluster name must be provided\<close> and no configuration; so every
  configuration it returns has a cluster name that is not empty.
\<close>

theorem cluster_name_required:
  "(\<forall>base. baseline unmarshal fs commandArgs = Inr base \<longrightarrow>
      map_index commandArgs ClusterName_key = [] \<longrightarrow>
      os_Getenv env (fieldNameToEnvName ClusterName_key) = [] \<longrightarrow>
      ClusterName base = [] \<longrightarrow>
      InitializeConfiguration unmarshal fs env usr commandArgs = Inl ClusterNameMissing) \<and>
   (\<forall>c. InitializeConfiguration unmarshal fs env usr commandArgs = Inr c \<longrightarrow>
      ClusterName c \<noteq> [])"
proof (intro conjI allI impI)
  fix base
  assume b: "baseline unmarshal fs commandArgs = Inr base"
    and "map_index commandArgs ClusterName_key = []"
    and "os_Getenv env (fieldNameToEnvName ClusterName_key) = []"
    and "ClusterName base = []"
  then show "InitializeConfiguration unmarshal fs env usr commandArgs = Inl ClusterNameMissing"
    unfolding InitializeConfiguration_closed [OF b]
    by (simp add: spec_precedence_def key_defs defaultConfigValues_def)
next
  fix c
  assume i: "InitializeConfiguration unmarshal fs env usr commandArgs = Inr c"
  then obtain base where b: "baseline unmarshal fs commandArgs = Inr base"
    unfolding InitializeConfiguration_def by (cases "baseline unmarshal fs commandArgs") auto
  show "ClusterName c \<noteq> []"
    using i unfolding InitializeConfiguration_closed [OF b]
    by (auto split: if_splits sum.splits)
qed

theorem cluster_name_required_witness:
  "baseline sample_unmarshal sample_fs Map.empty = Inr zero_LocalClusterConfig \<and>
   map_index Map.empty ClusterName_key = [] \<and>
   os_Getenv Map.empty (fieldNameToEnvName ClusterName_key) = [] \<and>
   ClusterName zero_LocalClusterConfig = [] \<and>
   InitializeConfiguration sample_unmarshal sample_fs Map.empty None Map.empty
     = Inl ClusterNameMissing \<and>
   (\<exists>c. InitializeConfiguration sample_unmarshal sample_fs Map.empty None
          [ClusterConfigFile \<mapsto> ''cluster.yaml''] = Inr c \<and> ClusterName c \<noteq> [])"
proof -
  have b: "baseline sample_unmarshal sample_fs Map.empty = Inr zero_LocalClusterConfig"
    by (rule baseline_no_file) (simp add: map_index_def)
  have h: "map_index Map.empty ClusterName_key = []"
    "os_Getenv Map.empty (fieldNameToEnvName ClusterName_key) = []"
    "ClusterName zero_LocalClusterConfig = []"
    by (simp_all add: map_index_def os_Getenv_def zero_LocalClusterConfig_def)
  have b2: "baseline sample_unmarshal sample_fs [ClusterConfigFile \<mapsto> ''cluster.yaml'']
      = Inr sample_config"
    by (simp add: baseline_def map_index_def ClusterConfigFile_def os_ReadFile_def sample_fs_def
          sample_unmarshal_def)
  have i2: "\<exists>c. InitializeConfiguration sample_unmarshal sample_fs Map.empty None
          [ClusterConfigFile \<mapsto> ''cluster.yaml''] = Inr c"
    unfolding InitializeConfiguration_closed [OF b2]
    by (simp add: spec_precedence_def map_index_def os_Getenv_def key_defs
          sample_config_def zero_LocalClusterConfig_def defaultConfigValues_def
          sanatizeKubeconfigPath_empty)
  show ?thesis
    using b h i2
      cluster_name_required [of sample_unmarshal sample_fs Map.empty Map.empty None]
      cluster_name_required [of sample_unmarshal sample_fs "[ClusterConfigFile \<mapsto> ''cluster.yaml'']"
        Map.empty None]
    by blast
qed

text \<open>
  Claim C9.  The loop leaves the provider configuration bag, the CNI configuration
  bag and the port-mapping list as the file baseline has them, whatever the
  environment and the explicit arguments are, and so does the configuration that
  \<^verbatim>\<open>InitializeConfiguration\<close> returns.
\<close>

theorem bags_and_ports_from_baseline:
  "\<exists>merged.
     overlay_fields commandArgs env LocalClusterConfig_fields base = Inr merged \<and>
     ProviderConfiguration merged = ProviderConfiguration base \<and>
     CNIConfiguration merged = CNIConfiguration base \<and>
     PortsToForward merged = PortsToForward base \<and>
     (\<forall>c. baseline unmarshal fs commandArgs = Inr base \<and>
          InitializeConfiguration unmarshal fs env usr commandArgs = Inr c \<longrightarrow>
          ProviderConfiguration c = ProviderConfiguration base \<and>
          CNIConfiguration c = CNIConfiguration base \<and>
          PortsToForward c = PortsToForward base)"
proof -
  have "ProviderConfiguration c = ProviderConfiguration base \<and>
        CNIConfiguration c = CNIConfiguration base \<and>
        PortsToForward c = PortsToForward base"
    if b: "baseline unmarshal fs commandArgs = Inr base"
      and i: "InitializeConfiguration unmarshal fs env usr commandArgs = Inr c" for c
    using i unfolding InitializeConfiguration_closed [OF b]
    by (auto split: if_splits sum.splits)
  then show ?thesis
    by (simp add: overlay_fields_closed)
qed

theorem bags_and_ports_from_baseline_witness:
  "baseline sample_unmarshal sample_fs
      [ClusterConfigFile \<mapsto> ''cluster.yaml'', ''ProviderConfiguration'' \<mapsto> ''other'',
       ''PortsToForward'' \<mapsto> ''1:2'']
     = Inr sample_config \<and>
   (\<exists>c. InitializeConfiguration sample_unmarshal sample_fs
          [''TANZU_PROVIDER_CONFIGURATION'' \<mapsto> ''other'', ''TANZU_PORTS_TO_FORWARD'' \<mapsto> ''1:2'']
          None
          [ClusterConfigFile \<mapsto> ''cluster.yaml'', ''ProviderConfiguration'' \<mapsto> ''other'',
           ''PortsToForward'' \<mapsto> ''1:2'']
        = Inr c \<and>
        ProviderConfiguration c = [''image'' \<mapsto> YStr ''kind''] \<and>
        CNIConfiguration c = Map.empty \<and>
        PortsToForward c = [\<lparr>HostPort = 80, ContainerPort = 8080\<rparr>])"
proof -
  let ?args = "[ClusterConfigFile \<mapsto> ''cluster.yaml'', ''ProviderConfiguration'' \<mapsto> ''other'',
       ''PortsToForward'' \<mapsto> ''1:2'']"
  let ?env = "[''TANZU_PROVIDER_CONFIGURATION'' \<mapsto> ''other'', ''TANZU_PORTS_TO_FORWARD'' \<mapsto> ''1:2'']"
  have b: "baseline sample_unmarshal sample_fs ?args = Inr sample_config"
    by (simp add: baseline_def map_index_def ClusterConfigFile_def os_ReadFile_def sample_fs_def
          sample_unmarshal_def)
  have "\<exists>c. InitializeConfiguration sample_unmarshal sample_fs ?env None ?args = Inr c"
    unfolding InitializeConfiguration_closed [OF b]
    by (simp add: spec_precedence_def map_index_def os_Getenv_def key_defs
          fieldNameToEnvName_keys sample_config_def zero_LocalClusterConfig_def
          defaultConfigValues_def sanatizeKubeconfigPath_empty)
  then obtain c where
    c: "InitializeConfiguration sample_unmarshal sample_fs ?env None ?args = Inr c" ..
  from bags_and_ports_from_baseline
         [of ?args ?env sample_config sample_unmarshal sample_fs None]
  have "ProviderConfiguration c = ProviderConfiguration sample_config \<and>
        CNIConfiguration c = CNIConfiguration sample_config \<and>
        PortsToForward c = PortsToForward sample_config"
    using b c by blast
  then have "ProviderConfiguration c = [''image'' \<mapsto> YStr ''kind''] \<and>
        CNIConfiguration c = Map.empty \<and>
        PortsToForward c = [\<lparr>HostPort = 80, ContainerPort = 8080\<rparr>]"
    by (simp add: sample_config_def zero_LocalClusterConfig_def)
  with b c show ?thesis by blast
qed

subsection \<open>Persistence\<close>

text \<open>
  What rendering does at a path where nothing exists, and what loading makes of a
  file: the program writes the encoder's output as it is and returns the decoder's
  result as it is.  Whether the two fit together is a matter of the YAML library.
\<close>

lemma RenderConfigToFile_absent:
  assumes "nodes fs filePath = None"
  shows "RenderConfigToFile encode fs filePath config =
     (case encode config of
        Inl err \<Rightarrow> (Some (RenderFailed err), fs)
      | Inr rawConfig \<Rightarrow>
          (case create_error fs filePath of
             Some e \<Rightarrow> (Some (WriteFailed e), fs)
           | None \<Rightarrow> (None, fs\<lparr>nodes := (nodes fs)(filePath \<mapsto> File rawConfig)\<rparr>)))"
  using assms
  by (simp add: RenderConfigToFile_def os_ReadDir_def os_IsNotExist_def os_WriteFile_def
        split: sum.split option.split)

lemma RenderFileToConfig_file:
  assumes "nodes fs filePath = Some (File d)"
  shows "RenderFileToConfig unmarshal fs filePath =
     (case unmarshal d of
        Inl err \<Rightarrow> Inl (InvalidConfiguration filePath err)
      | Inr lcc \<Rightarrow> Inr lcc)"
  using assms by (simp add: RenderFileToConfig_def os_ReadFile_def)

text \<open>
  Nothing existing at a path does not make rendering succeed: nothing exists at
  \<^verbatim>\<open>missing/cluster.yaml\<close>, the probe reports that, the write fails because the
  directory is missing, and loading the path fails too.
\<close>

lemma render_write_fails:
  "nodes sample_fs ''missing/cluster.yaml'' = None \<and>
   RenderConfigToFile sample_encode sample_fs ''missing/cluster.yaml'' sample_config
     = (Some (WriteFailed ENOENT), sample_fs) \<and>
   RenderFileToConfig sample_unmarshal sample_fs ''missing/cluster.yaml''
     = Inl (ReadFailed ENOENT)"
proof -
  have n: "nodes sample_fs ''missing/cluster.yaml'' = None"
    by (simp add: sample_fs_def)
  have c: "create_error sample_fs ''missing/cluster.yaml'' = Some ENOENT"
    by (simp add: sample_fs_def)
  have r: "RenderConfigToFile sample_encode sample_fs ''missing/cluster.yaml'' sample_config
     = (Some (WriteFailed ENOENT), sample_fs)"
    by (simp add: RenderConfigToFile_absent [OF n] sample_encode_def c)
  have l: "RenderFileToConfig sample_unmarshal sample_fs ''missing/cluster.yaml''
     = Inl (ReadFailed ENOENT)"
    by (simp add: RenderFileToConfig_def os_ReadFile_def n)
  show ?thesis
    by (simp add: n r l)
qed

text \<open>
  Claim C8.  When a file or a directory exists at the path, \<^verbatim>\<open>RenderConfigToFile\<close>
  returns the error \<^verbatim>\<open>failed to create config file at ..., does it already exist\<close> and
  the file system is as it was before the call.
\<close>

theorem render_refuses_existing:
  assumes "nodes fs filePath = Some n"
  shows "RenderConfigToFile encode fs filePath config = (Some (CreateFailed filePath), fs)"
  using assms
  by (cases n) (simp_all add: RenderConfigToFile_def os_ReadDir_def os_IsNotExist_def)

theorem render_refuses_existing_witness:
  "nodes sample_fs ''cluster.yaml'' = Some (File sample_document) \<and>
   RenderConfigToFile sample_encode sample_fs ''cluster.yaml'' zero_LocalClusterConfig
     = (Some (CreateFailed ''cluster.yaml''), sample_fs) \<and>
   nodes sample_fs ''clusters'' = Some Dir \<and>
   RenderConfigToFile sample_encode sample_fs ''clusters'' zero_LocalClusterConfig
     = (Some (CreateFailed ''clusters''), sample_fs)"
proof -
  have f: "nodes sample_fs ''cluster.yaml'' = Some (File sample_document)"
    by (simp add: sample_fs_def)
  have d: "nodes sample_fs ''clusters'' = Some Dir"
    by (simp add: sample_fs_def)
  show ?thesis
    using f d
      render_refuses_existing [OF f, of sample_encode zero_LocalClusterConfig]
      render_refuses_existing [OF d, of sample_encode zero_LocalClusterConfig]
    by simp
qed

text \<open>
  Claim C10.  When the file can be read and its contents decode, \<^verbatim>\<open>RenderFileToConfig\<close>
  returns the decoded configuration as it is: no default is filled in, the kubeconfig
  path is not sanitized and an empty cluster name is accepted.  The closed instance
  loads a file that decodes to the zero configuration, which resolution rejects.
\<close>

theorem load_returns_decoded_verbatim:
  assumes "os_ReadFile fs filePath = Inr d"
    and "unmarshal d = Inr lcc"
  shows "RenderFileToConfig unmarshal fs filePath = Inr lcc"
  using assms by (simp add: RenderFileToConfig_def)

theorem load_returns_decoded_verbatim_witness:
  "os_ReadFile sample_fs ''empty.yaml'' = Inr ''{}'' \<and>
   sample_unmarshal ''{}'' = Inr zero_LocalClusterConfig \<and>
   RenderFileToConfig sample_unmarshal sample_fs ''empty.yaml'' = Inr zero_LocalClusterConfig \<and>
   ClusterName zero_LocalClusterConfig = [] \<and>
   Provider zero_LocalClusterConfig = [] \<and>
   InitializeConfiguration sample_unmarshal sample_fs Map.empty None
     [ClusterConfigFile \<mapsto> ''empty.yaml''] = Inl ClusterNameMissing"
proof -
  have r: "os_ReadFile sample_fs ''empty.yaml'' = Inr ''{}''"
    by (simp add: os_ReadFile_def sample_fs_def)
  have u: "sample_unmarshal ''{}'' = Inr zero_LocalClusterConfig"
    by (simp add: sample_unmarshal_def sample_document_def)
  have b: "baseline sample_unmarshal sample_fs [ClusterConfigFile \<mapsto> ''empty.yaml'']
      = Inr zero_LocalClusterConfig"
    by (simp add: baseline_def map_index_def r u)
  have i: "InitializeConfiguration sample_unmarshal sample_fs Map.empty None
     [ClusterConfigFile \<mapsto> ''empty.yaml''] = Inl ClusterNameMissing"
    unfolding InitializeConfiguration_closed [OF b]
    by (simp add: spec_precedence_def map_index_def os_Getenv_def key_defs
          zero_LocalClusterConfig_def defaultConfigValues_def)
  show ?thesis
    using r u i
      load_returns_decoded_verbatim
        [of sample_fs "''empty.yaml''" "''{}''" sample_unmarshal zero_LocalClusterConfig]
    by (simp add: zero_LocalClusterConfig_def)
qed


subsection \<open>Kubeconfig path sanitization\<close>

text \<open>\<open>Clean\<close> returns a path made of plain elements as it is.\<close>

lemma dropWhile_element:
  assumes "CHR ''/'' \<notin> set cs" and "rest = [] \<or> hd rest = CHR ''/''"
  shows "dropWhile (\<lambda>x. x \<noteq> CHR ''/'') (cs @ rest) = rest"
proof -
  have "dropWhile (\<lambda>x. x \<noteq> CHR ''/'') (cs @ rest) = dropWhile (\<lambda>x. x \<noteq> CHR ''/'') rest"
    using assms(1) by (intro dropWhile_append2) auto
  also have "\<dots> = rest"
    using assms(2) by (cases rest) auto
  finally show ?thesis .
qed

lemma takeWhile_element:
  assumes "CHR ''/'' \<notin> set cs" and "rest = [] \<or> hd rest = CHR ''/''"
  shows "takeWhile (\<lambda>x. x \<noteq> CHR ''/'') (cs @ rest) = cs"
proof -
  have "takeWhile (\<lambda>x. x \<noteq> CHR ''/'') (cs @ rest) = cs @ takeWhile (\<lambda>x. x \<noteq> CHR ''/'') rest"
    using assms(1) by (intro takeWhile_append2) auto
  also have "takeWhile (\<lambda>x. x \<noteq> CHR ''/'') rest = []"
    using assms(2) by (cases rest) auto
  finally show ?thesis by simp
qed

lemma clean_loop_element:
  assumes "plain_element e" and "rest = [] \<or> hd rest = CHR ''/''"
  shows "clean_loop rooted (e @ rest) out dotdot =
     clean_loop rooted rest
       ((if rooted \<and> length out \<noteq> 1 \<or> \<not> rooted \<and> length out \<noteq> 0 then out @ ''/'' else out) @ e)
       dotdot"
proof -
  from assms(1) obtain c cs where e: "e = c # cs"
    by (cases e) (auto simp: plain_element_def)
  from assms(1) e have c: "c \<noteq> CHR ''/''" and cs: "CHR ''/'' \<notin> set cs"
    by (auto simp: plain_element_def)
  have a: "\<not> (c = CHR ''.'' \<and> (cs @ rest = [] \<or> hd (cs @ rest) = CHR ''/''))"
  proof
    assume h: "c = CHR ''.'' \<and> (cs @ rest = [] \<or> hd (cs @ rest) = CHR ''/'')"
    with assms(1) e have "cs \<noteq> []" by (auto simp: plain_element_def)
    then have "hd (cs @ rest) \<in> set cs" by (cases cs) auto
    with cs h \<open>cs \<noteq> []\<close> show False by auto
  qed
  have b: "\<not> (c = CHR ''.'' \<and> hd (cs @ rest) = CHR ''.'' \<and>
             (tl (cs @ rest) = [] \<or> hd (tl (cs @ rest)) = CHR ''/''))"
  proof
    assume h: "c = CHR ''.'' \<and> hd (cs @ rest) = CHR ''.'' \<and>
             (tl (cs @ rest) = [] \<or> hd (tl (cs @ rest)) = CHR ''/'')"
    with assms(1) e have "cs \<noteq> []" by (auto simp: plain_element_def)
    then obtain d ds where ds: "cs = d # ds" by (cases cs) auto
    with h have "d = CHR ''.''" by simp
    with assms(1) e ds h have "ds \<noteq> []" by (auto simp: plain_element_def)
    then have "hd (ds @ rest) \<in> set ds" by (cases ds) auto
    with cs ds h \<open>ds \<noteq> []\<close> show False by auto
  qed
  show ?thesis
    unfolding e
    by (simp only: append_Cons clean_loop.simps(2) c a b if_False
          dropWhile_element [OF cs assms(2)] takeWhile_element [OF cs assms(2)])
qed

lemma clean_loop_elements:
  assumes "list_all plain_element es" and "es \<noteq> []"
  shows "clean_loop rooted (strings_Join es ''/'') out dotdot =
     (if rooted \<and> length out \<noteq> 1 \<or> \<not> rooted \<and> length out \<noteq> 0 then out @ ''/'' else out)
       @ strings_Join es ''/''"
  using assms
proof (induction es arbitrary: out)
  case Nil
  then show ?case by simp
next
  case (Cons e rest)
  let ?out = "(if rooted \<and> length out \<noteq> 1 \<or> \<not> rooted \<and> length out \<noteq> 0 then out @ ''/'' else out) @ e"
  from Cons.prems have e: "plain_element e" and r: "list_all plain_element rest"
    by simp_all
  show ?case
  proof (cases rest)
    case Nil
    then show ?thesis
      using clean_loop_element [OF e, of "[]" rooted out dotdot] by simp
  next
    case (Cons v va)
    from e have "e \<noteq> []" by (simp add: plain_element_def)
    then have l: "rooted \<and> length ?out \<noteq> 1 \<or> \<not> rooted \<and> length ?out \<noteq> 0"
      by (cases e; cases out) auto
    have n: "rest \<noteq> []" using Cons by simp
    have "clean_loop rooted (strings_Join (e # rest) ''/'') out dotdot
        = clean_loop rooted (e @ ''/'' @ strings_Join rest ''/'') out dotdot"
      using Cons by simp
    also have "\<dots> = clean_loop rooted (''/'' @ strings_Join rest ''/'') ?out dotdot"
      by (rule clean_loop_element [OF e]) simp
    also have "\<dots> = clean_loop rooted (strings_Join rest ''/'') ?out dotdot"
      by simp
    also have "\<dots> = ?out @ ''/'' @ strings_Join rest ''/''"
      using Cons.IH [OF r n, of ?out] l by (simp only: if_P append_assoc)
    finally show ?thesis using Cons by simp
  qed
qed

lemma Clean_absolute:
  assumes "list_all plain_element es" and "es \<noteq> []"
  shows "Clean (CHR ''/'' # strings_Join es ''/'') = CHR ''/'' # strings_Join es ''/''"
  using clean_loop_elements [OF assms, of True "''/''" 1]
  by (simp add: Clean_def)

lemma Clean_relative:
  assumes "list_all plain_element es" and "es \<noteq> []"
  shows "Clean (strings_Join es ''/'') = strings_Join es ''/''"
proof -
  from assms obtain e rest where es: "es = e # rest" by (cases es) auto
  with assms have "plain_element e" by simp
  then obtain c cs where e: "e = c # cs" and c: "c \<noteq> CHR ''/''"
    by (cases e) (auto simp: plain_element_def)
  have ne: "strings_Join es ''/'' \<noteq> []" and hd: "hd (strings_Join es ''/'') \<noteq> CHR ''/''"
    using es e c by (cases rest; simp)+
  show ?thesis
    using clean_loop_elements [OF assms, of False "[]" 0] ne hd
    by (simp add: Clean_def)
qed

lemma strings_Join_append:
  "xs \<noteq> [] \<Longrightarrow> ys \<noteq> [] \<Longrightarrow>
     strings_Join (xs @ ys) sep = strings_Join xs sep @ sep @ strings_Join ys sep"
  by (induction xs sep rule: strings_Join.induct) (auto simp: neq_Nil_conv)

text \<open>
  Claim C2 says that sanitizing a path that begins with \<^verbatim>\<open>~/\<close> never panics when the
  lookup of the current user fails.  In the program the lookup's error is discarded
  and \<^verbatim>\<open>HomeDir\<close> is read through the \<^verbatim>\<open>nil\<close> pointer that the failed lookup returned:
  sanitizing \<^verbatim>\<open>~/clusters/foo.yaml\<close> panics, and so does \<^verbatim>\<open>InitializeConfiguration\<close> when
  that path is the kubeconfig path.
\<close>

theorem sanatizeKubeconfigPath_nil_user:
  "sanatizeKubeconfigPath None ''~/clusters/foo.yaml'' = Inl NilPointerPanic \<and>
   InitializeConfiguration sample_unmarshal sample_fs Map.empty None
     [ClusterName_key \<mapsto> ''demo'', ''KubeconfigPath'' \<mapsto> ''~/clusters/foo.yaml'']
     = Inl NilPointerPanic"
proof -
  have s: "sanatizeKubeconfigPath None ''~/clusters/foo.yaml'' = Inl NilPointerPanic"
    by (simp add: sanatizeKubeconfigPath_def strings_HasPrefix_def)
  have b: "baseline sample_unmarshal sample_fs
      [ClusterName_key \<mapsto> ''demo'', ''KubeconfigPath'' \<mapsto> ''~/clusters/foo.yaml'']
      = Inr zero_LocalClusterConfig"
    by (rule baseline_no_file) (simp add: map_index_def key_defs)
  have "InitializeConfiguration sample_unmarshal sample_fs Map.empty None
     [ClusterName_key \<mapsto> ''demo'', ''KubeconfigPath'' \<mapsto> ''~/clusters/foo.yaml'']
     = Inl NilPointerPanic"
    unfolding InitializeConfiguration_closed [OF b]
    by (simp add: spec_precedence_def map_index_def os_Getenv_def key_defs
          zero_LocalClusterConfig_def defaultConfigValues_def s)
  with s show ?thesis by simp
qed

text \<open>
  Claim C7 as stated, that a path without the prefix \<^verbatim>\<open>~/\<close> passes through unchanged,
  fails at \<^verbatim>\<open>./kubeconfig\<close>: joining cleans the path and \<^verbatim>\<open>kubeconfig\<close> is returned.
\<close>

theorem sanatizeKubeconfigPath_changes_path:
  "\<not> strings_HasPrefix ''./kubeconfig'' ''~/'' \<and>
   sanatizeKubeconfigPath (Some sample_user) ''./kubeconfig'' = Inr ''kubeconfig'' \<and>
   sanatizeKubeconfigPath (Some sample_user) ''./kubeconfig'' \<noteq> Inr ''./kubeconfig''"
proof -
  have c: "Clean ''./kubeconfig'' = ''kubeconfig''" by code_simp
  show ?thesis
    by (simp add: sanatizeKubeconfigPath_def strings_HasPrefix_def c)
qed

text \<open>
  Claim C7, amended.  For a path that begins with \<^verbatim>\<open>~/\<close>, when the current user is
  known, the result is the home directory joined with the rest of the path; any other
  path is returned as \<^verbatim>\<open>filepath.Join\<close> cleans it, the empty path staying empty.  When
  the home directory is an absolute path of plain elements and the rest is made of
  plain elements, the result is the home directory, a separator and the rest; and a
  path of plain elements, absolute or relative, that does not begin with \<^verbatim>\<open>~/\<close> is
  returned unchanged.  With the home directory \<^verbatim>\<open>/home/user\<close>, \<^verbatim>\<open>~/clusters/foo.yaml\<close>
  gives \<^verbatim>\<open>/home/user/clusters/foo.yaml\<close>, and \<^verbatim>\<open>/abs/path.yaml\<close> gives \<^verbatim>\<open>/abs/path.yaml\<close>.
\<close>

theorem sanatizeKubeconfigPath_joins:
  "(strings_HasPrefix path ''~/'' \<longrightarrow>
      sanatizeKubeconfigPath (Some u) path = Inr (Join [Join [[], HomeDir u], drop 2 path])) \<and>
   (\<not> strings_HasPrefix path ''~/'' \<longrightarrow>
      sanatizeKubeconfigPath usr path = Inr (if path = [] then [] else Clean path)) \<and>
   (list_all plain_element hs \<and> hs \<noteq> [] \<and> HomeDir u = CHR ''/'' # strings_Join hs ''/'' \<and>
    list_all plain_element rs \<and> rs \<noteq> [] \<longrightarrow>
      sanatizeKubeconfigPath (Some u) (''~/'' @ strings_Join rs ''/'')
        = Inr (HomeDir u @ ''/'' @ strings_Join rs ''/'')) \<and>
   (list_all plain_element es \<and> es \<noteq> [] \<longrightarrow>
      sanatizeKubeconfigPath usr (CHR ''/'' # strings_Join es ''/'')
        = Inr (CHR ''/'' # strings_Join es ''/'')) \<and>
   (list_all plain_element es \<and> es \<noteq> [] \<and> \<not> strings_HasPrefix (strings_Join es ''/'') ''~/'' \<longrightarrow>
      sanatizeKubeconfigPath usr (strings_Join es ''/'') = Inr (strings_Join es ''/'')) \<and>
   sanatizeKubeconfigPath (Some sample_user) ''~/clusters/foo.yaml''
     = Inr ''/home/user/clusters/foo.yaml'' \<and>
   sanatizeKubeconfigPath usr ''/abs/path.yaml'' = Inr ''/abs/path.yaml''"
proof -
  have g1: "strings_HasPrefix path ''~/'' \<longrightarrow>
      sanatizeKubeconfigPath (Some u) path = Inr (Join [Join [[], HomeDir u], drop 2 path])"
    by (simp add: sanatizeKubeconfigPath_def)
  have g2: "\<not> strings_HasPrefix p ''~/'' \<longrightarrow>
      sanatizeKubeconfigPath usr p = Inr (if p = [] then [] else Clean p)" for p
    by (simp add: sanatizeKubeconfigPath_def)
  have g3: "sanatizeKubeconfigPath (Some u) (''~/'' @ strings_Join rs ''/'')
        = Inr (HomeDir u @ ''/'' @ strings_Join rs ''/'')"
    if hs: "list_all plain_element hs" "hs \<noteq> []"
      and h: "HomeDir u = CHR ''/'' # strings_Join hs ''/''"
      and rs: "list_all plain_element rs" "rs \<noteq> []"
  proof -
    have ch: "Clean (HomeDir u) = HomeDir u"
      unfolding h by (rule Clean_absolute [OF hs])
    have "Clean (HomeDir u @ ''/'' @ strings_Join rs ''/'')
        = Clean (CHR ''/'' # strings_Join (hs @ rs) ''/'')"
      using hs(2) rs(2) by (simp add: h strings_Join_append)
    also have "\<dots> = CHR ''/'' # strings_Join (hs @ rs) ''/''"
      using hs rs by (intro Clean_absolute) simp_all
    also have "\<dots> = HomeDir u @ ''/'' @ strings_Join rs ''/''"
      using hs(2) rs(2) by (simp add: h strings_Join_append)
    finally have cj: "Clean (HomeDir u @ ''/'' @ strings_Join rs ''/'')
        = HomeDir u @ ''/'' @ strings_Join rs ''/''" .
    have n: "HomeDir u \<noteq> []" by (simp add: h)
    show ?thesis
      using cj by (simp add: sanatizeKubeconfigPath_def strings_HasPrefix_def n ch)
  qed
  have g4: "sanatizeKubeconfigPath usr (CHR ''/'' # strings_Join es ''/'')
        = Inr (CHR ''/'' # strings_Join es ''/'')"
    if "list_all plain_element es" "es \<noteq> []"
    using Clean_absolute [OF that]
    by (simp add: sanatizeKubeconfigPath_def strings_HasPrefix_def)
  have g5: "sanatizeKubeconfigPath usr (strings_Join es ''/'') = Inr (strings_Join es ''/'')"
    if "list_all plain_element es" "es \<noteq> []"
      and "\<not> strings_HasPrefix (strings_Join es ''/'') ''~/''"
    using Clean_relative [OF that(1,2)] g2 [of "strings_Join es ''/''"] that(3)
    by simp
  have c1: "Clean ''/home/user'' = ''/home/user''" by code_simp
  have c2: "Clean ''/home/user/clusters/foo.yaml'' = ''/home/user/clusters/foo.yaml''"
    by code_simp
  have c3: "Clean ''/abs/path.yaml'' = ''/abs/path.yaml''" by code_simp
  have e1: "sanatizeKubeconfigPath (Some sample_user) ''~/clusters/foo.yaml''
     = Inr ''/home/user/clusters/foo.yaml''"
    by (simp add: sanatizeKubeconfigPath_def strings_HasPrefix_def sample_user_def c1 c2)
  have e2: "sanatizeKubeconfigPath usr ''/abs/path.yaml'' = Inr ''/abs/path.yaml''"
    by (simp add: sanatizeKubeconfigPath_def strings_HasPrefix_def c3)
  show ?thesis using e1 e2 g1 g2 [of path] g3 g4 g5 by blast
qed

theorem sanatizeKubeconfigPath_joins_witness:
  "strings_HasPrefix ''~/clusters/../kube'' ''~/'' \<and>
   sanatizeKubeconfigPath (Some sample_user) ''~/clusters/../kube'' = Inr ''/home/user/kube'' \<and>
   \<not> strings_HasPrefix ''kube//config/'' ''~/'' \<and>
   sanatizeKubeconfigPath None ''kube//config/'' = Inr ''kube/config'' \<and>
   list_all plain_element [''home'', ''user''] \<and>
   HomeDir sample_user = CHR ''/'' # strings_Join [''home'', ''user''] ''/'' \<and>
   list_all plain_element [''.kube'', ''config''] \<and>
   sanatizeKubeconfigPath (Some sample_user) ''~/.kube/config'' = Inr ''/home/user/.kube/config'' \<and>
   sanatizeKubeconfigPath None ''/.kube/config'' = Inr ''/.kube/config'' \<and>
   \<not> strings_HasPrefix (strings_Join [''.kube'', ''config''] ''/'') ''~/'' \<and>
   sanatizeKubeconfigPath None ''.kube/config'' = Inr ''.kube/config''"
proof -
  have p1: "strings_HasPrefix ''~/clusters/../kube'' ''~/''"
    by (simp add: strings_HasPrefix_def)
  have p2: "\<not> strings_HasPrefix ''kube//config/'' ''~/''"
    by (simp add: strings_HasPrefix_def)
  have p3: "\<not> strings_HasPrefix (strings_Join [''.kube'', ''config''] ''/'') ''~/''"
    by (simp add: strings_HasPrefix_def)
  have l1: "list_all plain_element [''home'', ''user'']"
    by (simp add: plain_element_def)
  have l2: "list_all plain_element [''.kube'', ''config'']"
    by (simp add: plain_element_def)
  have h: "HomeDir sample_user = CHR ''/'' # strings_Join [''home'', ''user''] ''/''"
    by (simp add: sample_user_def)
  have c1: "Join [Join [[], HomeDir sample_user], drop 2 ''~/clusters/../kube''] = ''/home/user/kube''"
    unfolding sample_user_def by code_simp
  have c2: "Clean ''kube//config/'' = ''kube/config''" by code_simp
  note t1 = sanatizeKubeconfigPath_joins
    [where path = "''~/clusters/../kube''" and u = sample_user and usr = None
       and hs = "[''home'', ''user'']" and rs = "[''.kube'', ''config'']"
       and es = "[''.kube'', ''config'']"]
  note t2 = sanatizeKubeconfigPath_joins
    [where path = "''kube//config/''" and u = sample_user and usr = None
       and hs = "[''home'', ''user'']" and rs = "[''.kube'', ''config'']"
       and es = "[''.kube'', ''config'']"]
  have a: "sanatizeKubeconfigPath (Some sample_user) ''~/clusters/../kube'' = Inr ''/home/user/kube''"
    using t1 p1 c1 by simp
  have b: "sanatizeKubeconfigPath None ''kube//config/'' = Inr ''kube/config''"
    using t2 p2 c2 by simp
  have c: "sanatizeKubeconfigPath (Some sample_user) ''~/.kube/config'' = Inr ''/home/user/.kube/config''"
    using t1 l1 l2 h by (simp add: sample_user_def)
  have d: "sanatizeKubeconfigPath None ''/.kube/config'' = Inr ''/.kube/config''"
    using t1 l2 by simp
  have e: "sanatizeKubeconfigPath None ''.kube/config'' = Inr ''.kube/config''"
    using t1 l2 p3 by simp
  show ?thesis using p1 p2 p3 l1 l2 h a b c d e by blast
qed

end
